theory Spec2Isabelle
  imports Main "HOL-Library.Word"
begin

section \<open>InterviewSession: the turn-taking controller of the interview component\<close>

text \<open>
  The source is the React function component \<open>InterviewSession\<close>
  (\<^verbatim>\<open>src/app/components/InterviewSession.tsx\<close>). Its \<open>useState\<close> cells are the fields
  of the record \<open>state\<close>; every handler is a function from the state to the new state
  together with the ordered list of calls it makes on its collaborators (the speech
  service, the dialogue service, the console, timers and the parent's callback).
\<close>

subsection \<open>JavaScript strings\<close>

text \<open>
  A JavaScript string is a sequence of UTF-16 code units. \<open>js_of\<close> embeds a literal of
  the source (all literals of the component are ASCII).
\<close>

type_synonym js_string = "16 word list"

definition js_of :: "string \<Rightarrow> js_string" where
  "js_of s = map of_char s"

text \<open>
  \<open>String.prototype.trim\<close> strips the code units of the ECMAScript productions
  WhiteSpace (TAB, VT, FF, ZWNBSP and the Unicode space separators) and LineTerminator
  (LF, CR, LS, PS) from both ends.
\<close>

definition is_js_whitespace :: "16 word \<Rightarrow> bool" where
  "is_js_whitespace c \<longleftrightarrow>
     c = 0x0009 \<or> c = 0x000A \<or> c = 0x000B \<or> c = 0x000C \<or> c = 0x000D \<or>
     c = 0x0020 \<or> c = 0x00A0 \<or> c = 0x1680 \<or> (0x2000 \<le> c \<and> c \<le> 0x200A) \<or>
     c = 0x2028 \<or> c = 0x2029 \<or> c = 0x202F \<or> c = 0x205F \<or> c = 0x3000 \<or>
     c = 0xFEFF"

definition trim :: "js_string \<Rightarrow> js_string" where
  "trim s = rev (dropWhile is_js_whitespace (rev (dropWhile is_js_whitespace s)))"

subsection \<open>Data model\<close>

datatype speaker = User | Bot

record turn =
  speaker :: speaker
  turn_text :: js_string

record userInfo =
  name :: js_string
  position :: js_string
  experience :: js_string
  additionalInfo :: js_string

text \<open>The eight \<open>useState\<close> cells of the component (lines 21 to 28).\<close>

record state =
  isListening :: bool
  transcript :: js_string
  botResponse :: js_string
  conversation :: "turn list"
  isConnected :: bool
  isBotSpeaking :: bool
  isLoading :: bool
  activeMessageIndex :: nat

definition initialState :: state where
  "initialState =
     \<lparr>isListening = False, transcript = [], botResponse = [], conversation = [],
      isConnected = False, isBotSpeaking = False, isLoading = False,
      activeMessageIndex = 0\<rparr>"

text \<open>What the runtime offers and what \<open>speechService.startListening\<close> answers.\<close>

record env =
  synthesisSupported :: bool
  recognitionSupported :: bool
  startListeningResult :: bool

text \<open>The value a rejected promise of the dialogue service carries.\<close>

datatype js_error = JsError js_string

type_synonym dialogue_result = "js_error + js_string"

text \<open>
  A handler handed to a collaborator is a closure. A function component creates its
  handlers anew at every render, and each closes over the constants of that render: the
  \<open>isListening\<close> that \<open>handleTranscript\<close> reads at line 107 is the value the cell had in
  the render that created this instance of the handler, not the value the cell has when
  the handler is called. The closures the component gives away are therefore
  represented with the captured flag:
  \<^item> \<open>HandleTranscriptCb b\<close>: \<open>handleTranscript\<close> of a render in which \<open>isListening\<close> was
    \<open>b\<close> (line 151);
  \<^item> \<open>MockTranscriptCb b\<close>: the arrow function of lines 157 to 160, which calls that
    \<open>handleTranscript\<close> on the canned transcript;
  \<^item> \<open>SpeakDoneCb\<close>: the arrow function of lines 63 and 124, \<open>setIsBotSpeaking(false)\<close>.
\<close>

datatype callback = HandleTranscriptCb bool | MockTranscriptCb bool | SpeakDoneCb

text \<open>The calls on collaborators, recorded in program order.\<close>

datatype effect =
    ResetConversation
  | InitializeWithUserInfo userInfo
  | GenerateInitialQuestion
  | GenerateNextQuestion js_string
  | IsSynthesisSupported
  | IsRecognitionSupported
  | Speak js_string callback
  | StartListening callback
  | StopListening
  | SpeechSynthesisCancel
  | SetTimeout callback nat
  | ConsoleError js_string js_error
  | OnEndInterview

subsection \<open>The effect that follows the latest message (lines 32 to 36)\<close>

text \<open>
  The effect depends on \<open>conversation.length\<close>: it runs after a render in which the
  length differs from the one of the render before.
\<close>

definition followLatest :: "state \<Rightarrow> state \<Rightarrow> state" where
  "followLatest prev s =
     (if length (conversation s) \<noteq> length (conversation prev) \<and>
         length (conversation s) > 0
      then s\<lparr>activeMessageIndex := length (conversation s) - 1\<rparr>
      else s)"

subsection \<open>initializeInterview (lines 47 to 83)\<close>

definition fallbackQuestion :: "userInfo \<Rightarrow> js_string" where
  "fallbackQuestion u =
     js_of ''Hello '' @ name u @
     js_of '', thanks for joining this interview for the '' @ position u @
     js_of '' position. Could you tell me about your background and experience?''"

text \<open>Up to the \<open>await\<close> of line 56.\<close>

definition initializeInterview_request :: "userInfo \<Rightarrow> state \<Rightarrow> state \<times> effect list" where
  "initializeInterview_request u s =
     (s\<lparr>isLoading := True\<rparr>,
      [ResetConversation, InitializeWithUserInfo u, GenerateInitialQuestion])"

text \<open>From the settling of the promise to the end of the function.\<close>

definition initializeInterview_settled ::
  "env \<Rightarrow> userInfo \<Rightarrow> dialogue_result \<Rightarrow> state \<Rightarrow> state \<times> effect list" where
  "initializeInterview_settled e u r s =
     (case r of
        Inr initialQuestion \<Rightarrow>
          (let s1 = s\<lparr>botResponse := initialQuestion,
                      conversation := [\<lparr>speaker = Bot, turn_text = initialQuestion\<rparr>]\<rparr>
           in if synthesisSupported e
              then (followLatest s
                      (s1\<lparr>isBotSpeaking := True, isLoading := False, isConnected := True\<rparr>),
                    [IsSynthesisSupported, Speak initialQuestion SpeakDoneCb])
              else (followLatest s (s1\<lparr>isLoading := False, isConnected := True\<rparr>),
                    [IsSynthesisSupported]))
      | Inl err \<Rightarrow>
          (followLatest s
             (s\<lparr>botResponse := fallbackQuestion u,
                conversation := [\<lparr>speaker = Bot, turn_text = fallbackQuestion u\<rparr>],
                isLoading := False, isConnected := True\<rparr>),
           [ConsoleError (js_of ''Error initializing interview:'') err]))"

definition initializeInterview ::
  "env \<Rightarrow> userInfo \<Rightarrow> dialogue_result \<Rightarrow> state \<Rightarrow> state \<times> effect list" where
  "initializeInterview e u r s =
     (let (s1, fx1) = initializeInterview_request u s;
          (s2, fx2) = initializeInterview_settled e u r s1
      in (s2, fx1 @ fx2))"

subsection \<open>handleTranscript (lines 98 to 133)\<close>

text \<open>
  Up to the \<open>await\<close> of line 117; \<open>None\<close> is the early return of line 99. The first
  argument is the \<open>isListening\<close> the handler closed over.
\<close>

definition handleTranscript_request ::
  "bool \<Rightarrow> js_string \<Rightarrow> state \<Rightarrow> (state \<times> effect list) option" where
  "handleTranscript_request capturedListening txt s =
     (if trim txt = [] then None
      else
        (let s1 = s\<lparr>transcript := txt,
                    conversation := conversation s @ [\<lparr>speaker = User, turn_text = txt\<rparr>]\<rparr>
         in if capturedListening
            then Some (followLatest s (s1\<lparr>isListening := False, isLoading := True\<rparr>),
                       [StopListening, GenerateNextQuestion txt])
            else Some (followLatest s (s1\<lparr>isLoading := True\<rparr>),
                       [GenerateNextQuestion txt])))"

definition handleTranscript_settled ::
  "env \<Rightarrow> dialogue_result \<Rightarrow> state \<Rightarrow> state \<times> effect list" where
  "handleTranscript_settled e r s =
     (case r of
        Inr nextQuestion \<Rightarrow>
          (let s1 = s\<lparr>botResponse := nextQuestion,
                      conversation :=
                        conversation s @ [\<lparr>speaker = Bot, turn_text = nextQuestion\<rparr>]\<rparr>
           in if synthesisSupported e
              then (followLatest s (s1\<lparr>isBotSpeaking := True, isLoading := False\<rparr>),
                    [IsSynthesisSupported, Speak nextQuestion SpeakDoneCb])
              else (followLatest s (s1\<lparr>isLoading := False\<rparr>), [IsSynthesisSupported]))
      | Inl err \<Rightarrow>
          (s\<lparr>isLoading := False\<rparr>,
           [ConsoleError (js_of ''Error generating response:'') err]))"

definition handleTranscript ::
  "bool \<Rightarrow> env \<Rightarrow> js_string \<Rightarrow> dialogue_result \<Rightarrow> state \<Rightarrow> state \<times> effect list" where
  "handleTranscript capturedListening e txt r s =
     (case handleTranscript_request capturedListening txt s of
        None \<Rightarrow> (s, [])
      | Some (s1, fx1) \<Rightarrow>
          (let (s2, fx2) = handleTranscript_settled e r s1 in (s2, fx1 @ fx2)))"

subsection \<open>toggleListening (lines 142 to 169)\<close>

definition mockTranscript :: js_string where
  "mockTranscript =
     js_of (''I have 5 years of experience working with React and Next.js. '' @
            ''I've built several enterprise applications and led teams of frontend developers.'')"

definition toggleListening :: "env \<Rightarrow> state \<Rightarrow> state \<times> effect list" where
  "toggleListening e s =
     (if isBotSpeaking s \<or> isLoading s then (s, [])
      else if \<not> isListening s then
        (if recognitionSupported e
         then (s\<lparr>isListening := startListeningResult e\<rparr>,
               [IsRecognitionSupported, StartListening (HandleTranscriptCb (isListening s))])
         else (s\<lparr>isListening := True\<rparr>,
               [IsRecognitionSupported, SetTimeout (MockTranscriptCb (isListening s)) 3000]))
      else
        (if recognitionSupported e
         then (s\<lparr>isListening := False\<rparr>, [IsRecognitionSupported, StopListening])
         else (s\<lparr>isListening := False\<rparr>, [IsRecognitionSupported])))"

text \<open>
  Running a closure the component gave away: the transcription service calls its
  callback with the recognised text, the timer and the speech output call theirs
  without an argument that is used.
\<close>

fun runCallback ::
  "callback \<Rightarrow> env \<Rightarrow> js_string \<Rightarrow> dialogue_result \<Rightarrow> state \<Rightarrow> state \<times> effect list" where
  "runCallback (HandleTranscriptCb b) e txt r s = handleTranscript b e txt r s"
| "runCallback (MockTranscriptCb b) e txt r s = handleTranscript b e mockTranscript r s"
| "runCallback SpeakDoneCb e txt r s = (s\<lparr>isBotSpeaking := False\<rparr>, [])"

subsection \<open>handleEndInterview (lines 172 to 182)\<close>

definition handleEndInterview :: "env \<Rightarrow> state \<Rightarrow> state \<times> effect list" where
  "handleEndInterview e s =
     (if synthesisSupported e
      then (s, [StopListening, IsSynthesisSupported, SpeechSynthesisCancel, OnEndInterview])
      else (s, [StopListening, IsSynthesisSupported, OnEndInterview]))"

subsection \<open>What is rendered (lines 184 to 277)\<close>

text \<open>
  \<open>conversation[activeMessageIndex] || null\<close>: an index past the end reads
  \<open>undefined\<close>, which \<open>||\<close> turns into \<open>null\<close>; a turn object is never falsy.
\<close>

definition activeMessage :: "state \<Rightarrow> turn option" where
  "activeMessage s =
     (if activeMessageIndex s < length (conversation s)
      then Some (conversation s ! activeMessageIndex s)
      else None)"

text \<open>The panel of the current turn (lines 204 to 217): its label and its text.\<close>

definition activePanel :: "state \<Rightarrow> (js_string \<times> js_string) option" where
  "activePanel s =
     (case activeMessage s of
        None \<Rightarrow> None
      | Some m \<Rightarrow>
          Some (if speaker m = Bot then js_of ''Interviewer'' else js_of ''You'', turn_text m))"

text \<open>
  The history pills (lines 220 to 235): one button per turn, drawn only when there is
  more than one turn; the button of index \<open>i\<close> calls \<open>setActiveMessageIndex(i)\<close>.
\<close>

definition pillIndices :: "state \<Rightarrow> nat list" where
  "pillIndices s =
     (if length (conversation s) > 1 then [0 ..< length (conversation s)] else [])"

definition clickPill :: "nat \<Rightarrow> state \<Rightarrow> state option" where
  "clickPill i s =
     (if i \<in> set (pillIndices s) then Some (s\<lparr>activeMessageIndex := i\<rparr>) else None)"

text \<open>
  The status line (lines 262 to 272) tells the four situations of the controller apart,
  in this order of precedence.
\<close>

datatype status = Idle | Listening | Processing | Speaking

definition status :: "state \<Rightarrow> status" where
  "status s =
     (if isBotSpeaking s then Speaking
      else if isLoading s then Processing
      else if isListening s then Listening
      else Idle)"

definition statusLine :: "state \<Rightarrow> js_string" where
  "statusLine s =
     (if isBotSpeaking s then js_of ''Interviewer is speaking...''
      else if isLoading s then js_of ''Processing your response...''
      else if isListening s then js_of ''Listening...''
      else if transcript s \<noteq> [] then transcript s
      else js_of ''Click the microphone to speak'')"

definition micDisabled :: "state \<Rightarrow> bool" where
  "micDisabled s \<longleftrightarrow> isBotSpeaking s \<or> isLoading s"

subsection \<open>Sequences of transcription and dialogue cycles\<close>







text \<open>The texts handed to \<open>speechService.speak\<close>, in order.\<close>

fun spokenTexts :: "effect list \<Rightarrow> js_string list" where
  "spokenTexts [] = []"
| "spokenTexts (Speak t cb # fx) = t # spokenTexts fx"
| "spokenTexts (other # fx) = spokenTexts fx"

subsection \<open>A concrete session\<close>

text \<open>
  A browser with speech output and without speech recognition, the profile of the
  specification's example, and the states of a session that starts, hears the opening
  question to its end and then has the microphone button pressed.
\<close>

definition demoEnv :: env where
  "demoEnv =
     \<lparr>synthesisSupported = True, recognitionSupported = False,
      startListeningResult = False\<rparr>"

definition demoProfile :: userInfo where
  "demoProfile =
     \<lparr>name = js_of ''Ana'', position = js_of ''Backend Engineer'',
      experience = js_of ''5 years'', additionalInfo = []\<rparr>"

definition demoOpened :: state where
  "demoOpened =
     fst (runCallback SpeakDoneCb demoEnv [] (Inr [])
            (fst (initializeInterview demoEnv demoProfile (Inr (js_of ''Q1'')) initialState)))"

definition demoListening :: state where
  "demoListening = fst (toggleListening demoEnv demoOpened)"

text \<open>The canned transcript arrives and the dialogue service answers it.\<close>

definition demoAnswered :: state where
  "demoAnswered =
     fst (runCallback (MockTranscriptCb False) demoEnv [] (Inr (js_of ''Q2'')) demoListening)"


section \<open>Properties\<close>

subsection \<open>Blank strings\<close>

lemma dropWhile_all_iff: "(\<forall>x\<in>set (dropWhile P xs). P x) \<longleftrightarrow> (\<forall>x\<in>set xs. P x)"
  by (induction xs) auto

lemma trim_empty_iff: "trim s = [] \<longleftrightarrow> list_all is_js_whitespace s"
proof -
  have "trim s = [] \<longleftrightarrow> (\<forall>x\<in>set (rev (dropWhile is_js_whitespace s)). is_js_whitespace x)"
    by (simp add: trim_def)
  also have "\<dots> \<longleftrightarrow> (\<forall>x\<in>set s. is_js_whitespace x)"
    by (simp add: dropWhile_all_iff)
  finally show ?thesis by (simp add: list_all_iff)
qed

lemma trim_js_of_nonblank:
  "\<not> is_js_whitespace (of_char c) \<Longrightarrow> trim (js_of (c # cs)) \<noteq> []"
  by (simp add: trim_empty_iff js_of_def)

lemma mockTranscript_not_blank: "trim mockTranscript \<noteq> []"
  unfolding mockTranscript_def
  by (simp only: append_Cons) (rule trim_js_of_nonblank, simp add: is_js_whitespace_def)

subsection \<open>handleTranscript, field by field\<close>

lemma handleTranscript_blank: "trim t = [] \<Longrightarrow> handleTranscript b e t r s = (s, [])"
  by (simp add: handleTranscript_def handleTranscript_request_def)

lemma handleTranscript_answered_conversation:
  "trim t \<noteq> [] \<Longrightarrow>
   conversation (fst (handleTranscript b e t (Inr q) s)) =
     conversation s @ [\<lparr>speaker = User, turn_text = t\<rparr>, \<lparr>speaker = Bot, turn_text = q\<rparr>]"
  by (simp add: handleTranscript_def handleTranscript_request_def
      handleTranscript_settled_def followLatest_def Let_def)

lemma handleTranscript_rejected_conversation:
  "trim t \<noteq> [] \<Longrightarrow>
   conversation (fst (handleTranscript b e t (Inl err) s)) =
     conversation s @ [\<lparr>speaker = User, turn_text = t\<rparr>]"
  by (simp add: handleTranscript_def handleTranscript_request_def
      handleTranscript_settled_def followLatest_def Let_def)

lemma handleTranscript_isListening:
  "trim t \<noteq> [] \<Longrightarrow>
   isListening (fst (handleTranscript b e t r s)) = (if b then False else isListening s)"
  by (cases r) (simp_all add: handleTranscript_def handleTranscript_request_def
      handleTranscript_settled_def followLatest_def Let_def)

lemma handleTranscript_isLoading:
  "isLoading (fst (handleTranscript b e t r s)) = (if trim t = [] then isLoading s else False)"
  by (cases r) (simp_all add: handleTranscript_def handleTranscript_request_def
      handleTranscript_settled_def followLatest_def Let_def)

lemma handleTranscript_rejected_isBotSpeaking:
  "isBotSpeaking (fst (handleTranscript b e t (Inl err) s)) = isBotSpeaking s"
  by (simp add: handleTranscript_def handleTranscript_request_def
      handleTranscript_settled_def followLatest_def Let_def)

lemma handleTranscript_rejected_effects:
  "trim t \<noteq> [] \<Longrightarrow>
   snd (handleTranscript b e t (Inl err) s) =
     (if b then [StopListening] else []) @
     [GenerateNextQuestion t, ConsoleError (js_of ''Error generating response:'') err]"
  by (simp add: handleTranscript_def handleTranscript_request_def
      handleTranscript_settled_def followLatest_def Let_def)

lemma handleTranscript_answered_effects:
  "trim t \<noteq> [] \<Longrightarrow>
   snd (handleTranscript b e t (Inr q) s) =
     (if b then [StopListening] else []) @
     [GenerateNextQuestion t, IsSynthesisSupported] @
     (if synthesisSupported e then [Speak q SpeakDoneCb] else [])"
  by (simp add: handleTranscript_def handleTranscript_request_def
      handleTranscript_settled_def followLatest_def Let_def)

lemma initializeInterview_conversation:
  "conversation (fst (initializeInterview e u r s)) =
     [\<lparr>speaker = Bot, turn_text = (case r of Inr q \<Rightarrow> q | Inl err \<Rightarrow> fallbackQuestion u)\<rparr>]"
  by (cases r) (simp_all add: initializeInterview_def initializeInterview_request_def
      initializeInterview_settled_def followLatest_def Let_def)

subsection \<open>Alternation\<close>



subsection \<open>Runs of events\<close>









lemma status_busy_iff:
  "status s = Processing \<or> status s = Speaking \<longleftrightarrow> isBotSpeaking s \<or> isLoading s"
  by (simp add: status_def)

subsection \<open>The handlers as a whole, and the concrete session\<close>

lemma demoOpened_eq:
  "demoOpened =
     \<lparr>isListening = False, transcript = [], botResponse = js_of ''Q1'',
      conversation = [\<lparr>speaker = Bot, turn_text = js_of ''Q1''\<rparr>],
      isConnected = True, isBotSpeaking = False, isLoading = False,
      activeMessageIndex = 0\<rparr>"
  by (simp add: demoOpened_def demoEnv_def initializeInterview_def
      initializeInterview_request_def initializeInterview_settled_def followLatest_def
      initialState_def)

lemma demoListening_eq: "demoListening = demoOpened\<lparr>isListening := True\<rparr>"
  by (simp add: demoListening_def demoOpened_eq toggleListening_def demoEnv_def)

lemma status_demoOpened: "status demoOpened = Idle"
  by (simp add: demoOpened_eq status_def)

lemma status_demoListening: "status demoListening = Listening"
  by (simp add: demoListening_eq demoOpened_eq status_def)

lemma initializeInterview_answered:
  "initializeInterview e u (Inr q) s =
     (followLatest s
        (s\<lparr>botResponse := q, conversation := [\<lparr>speaker = Bot, turn_text = q\<rparr>],
           isBotSpeaking := synthesisSupported e \<or> isBotSpeaking s,
           isLoading := False, isConnected := True\<rparr>),
      [ResetConversation, InitializeWithUserInfo u, GenerateInitialQuestion,
       IsSynthesisSupported] @
      (if synthesisSupported e then [Speak q SpeakDoneCb] else []))"
  by (simp add: initializeInterview_def initializeInterview_request_def
      initializeInterview_settled_def followLatest_def Let_def)

lemma initializeInterview_rejected:
  "initializeInterview e u (Inl err) s =
     (followLatest s
        (s\<lparr>botResponse := fallbackQuestion u,
           conversation := [\<lparr>speaker = Bot, turn_text = fallbackQuestion u\<rparr>],
           isLoading := False, isConnected := True\<rparr>),
      [ResetConversation, InitializeWithUserInfo u, GenerateInitialQuestion,
       ConsoleError (js_of ''Error initializing interview:'') err])"
  by (simp add: initializeInterview_def initializeInterview_request_def
      initializeInterview_settled_def followLatest_def Let_def)

lemma status_followLatest: "status (followLatest p s) = status s"
  by (simp add: followLatest_def status_def)

lemma handleTranscript_rejected_status:
  "trim t \<noteq> [] \<Longrightarrow>
   status (fst (handleTranscript b e t (Inl err) s)) =
     (if isBotSpeaking s then Speaking
      else if \<not> b \<and> isListening s then Listening
      else Idle)"
  by (simp add: status_def handleTranscript_isListening handleTranscript_isLoading
      handleTranscript_rejected_isBotSpeaking)

lemma conversation_demoAnswered:
  "conversation demoAnswered =
     [\<lparr>speaker = Bot, turn_text = js_of ''Q1''\<rparr>,
      \<lparr>speaker = User, turn_text = mockTranscript\<rparr>,
      \<lparr>speaker = Bot, turn_text = js_of ''Q2''\<rparr>]"
  using mockTranscript_not_blank
  by (simp add: demoAnswered_def handleTranscript_answered_conversation demoListening_eq
      demoOpened_eq)




subsection \<open>The claims\<close>




text \<open>
  Claim C2. In any state whose status is Processing or Speaking (a request is loading or
  the interviewer is speaking), \<open>toggleListening\<close> returns at line 145: no cell of the
  state changes and no collaborator is called, the transcription service included.
\<close>

theorem toggleListening_noop_while_busy:
  assumes "status s = Processing \<or> status s = Speaking"
  shows "toggleListening e s = (s, []) \<and> micDisabled s"
proof -
  from assms have "isBotSpeaking s \<or> isLoading s"
    by (simp add: status_busy_iff)
  then show ?thesis
    by (auto simp add: toggleListening_def micDisabled_def)
qed

theorem toggleListening_noop_while_busy_witness:
  "(status (fst (initializeInterview_request demoProfile initialState)) = Processing \<or>
    status (fst (initializeInterview_request demoProfile initialState)) = Speaking) \<and>
   toggleListening demoEnv (fst (initializeInterview_request demoProfile initialState)) =
     (fst (initializeInterview_request demoProfile initialState), [])"
proof -
  have h: "status (fst (initializeInterview_request demoProfile initialState)) = Processing \<or>
    status (fst (initializeInterview_request demoProfile initialState)) = Speaking"
    by (simp add: status_def initializeInterview_request_def initialState_def)
  from toggleListening_noop_while_busy [OF h, of demoEnv] h show ?thesis by simp
qed

text \<open>
  Claim C3. When the dialogue service rejects the request for the opening question, the
  conversation becomes the single interviewer turn whose text is the template of line 70
  filled with the profile's name and position; for Ana, Backend Engineer, it is the
  greeting of the specification's example.
\<close>

theorem opening_rejected_appends_fallback_turn:
  "conversation (fst (initializeInterview e u (Inl err) initialState)) =
     conversation initialState @ [\<lparr>speaker = Bot, turn_text = fallbackQuestion u\<rparr>] \<and>
   conversation (fst (initializeInterview e u (Inl err) s)) =
     [\<lparr>speaker = Bot, turn_text = fallbackQuestion u\<rparr>] \<and>
   fallbackQuestion u =
     js_of ''Hello '' @ name u @ js_of '', thanks for joining this interview for the '' @
     position u @
     js_of '' position. Could you tell me about your background and experience?'' \<and>
   fallbackQuestion
     \<lparr>name = js_of ''Ana'', position = js_of ''Backend Engineer'',
      experience = x, additionalInfo = y\<rparr> =
     js_of (''Hello Ana, thanks for joining this interview for the Backend Engineer '' @
            ''position. Could you tell me about your background and experience?'')"
proof -
  have "fallbackQuestion
     \<lparr>name = js_of ''Ana'', position = js_of ''Backend Engineer'',
      experience = x, additionalInfo = y\<rparr> =
     js_of (''Hello Ana, thanks for joining this interview for the Backend Engineer '' @
            ''position. Could you tell me about your background and experience?'')"
    by (simp add: fallbackQuestion_def js_of_def)
  moreover have "conversation initialState = []"
    by (simp add: initialState_def)
  ultimately show ?thesis
    by (simp add: initializeInterview_conversation fallbackQuestion_def)
qed

text \<open>
  Claim C4, which fails as stated: with speech output supported and the opening request
  rejected, the fallback greeting is appended, \<open>speechService.speak\<close> is never called
  and the session is Idle, not Speaking.
\<close>

theorem fallback_greeting_not_spoken_counterexample:
  "synthesisSupported demoEnv \<and>
   conversation (fst (initializeInterview demoEnv demoProfile (Inl (JsError [])) initialState)) =
     [\<lparr>speaker = Bot, turn_text = fallbackQuestion demoProfile\<rparr>] \<and>
   spokenTexts (snd (initializeInterview demoEnv demoProfile (Inl (JsError [])) initialState)) = [] \<and>
   status (fst (initializeInterview demoEnv demoProfile (Inl (JsError [])) initialState)) = Idle \<and>
   status (fst (initializeInterview demoEnv demoProfile (Inl (JsError [])) initialState)) \<noteq> Speaking"
  by (simp add: initializeInterview_rejected status_followLatest)
     (simp add: followLatest_def status_def initialState_def demoEnv_def)

text \<open>
  Claim C4 as amended. At session start (nothing listening, nothing being spoken): when
  the dialogue service returns the opening question, it is spoken and the status is
  Speaking if speech output is supported, and the status is Idle with no speech call if
  it is not; when the request is rejected, the fallback greeting of the catch branch
  (lines 67 to 72) is not spoken and the status is Idle, whatever the runtime supports.
\<close>

theorem opening_spoken_only_when_generated:
  assumes "\<not> isListening s" and "\<not> isBotSpeaking s"
  shows "spokenTexts (snd (initializeInterview e u (Inr q) s)) =
           (if synthesisSupported e then [q] else []) \<and>
         status (fst (initializeInterview e u (Inr q) s)) =
           (if synthesisSupported e then Speaking else Idle) \<and>
         spokenTexts (snd (initializeInterview e u (Inl err) s)) = [] \<and>
         status (fst (initializeInterview e u (Inl err) s)) = Idle"
  using assms
  by (simp add: initializeInterview_rejected initializeInterview_answered status_followLatest)
     (simp add: status_def)

theorem opening_spoken_only_when_generated_witness:
  "\<not> isListening initialState \<and> \<not> isBotSpeaking initialState \<and>
   synthesisSupported demoEnv \<and>
   spokenTexts (snd (initializeInterview demoEnv demoProfile (Inr (js_of ''Q1'')) initialState)) =
     [js_of ''Q1''] \<and>
   status (fst (initializeInterview demoEnv demoProfile (Inr (js_of ''Q1'')) initialState)) =
     Speaking \<and>
   spokenTexts (snd (initializeInterview demoEnv demoProfile (Inl (JsError [])) initialState)) = [] \<and>
   status (fst (initializeInterview demoEnv demoProfile (Inl (JsError [])) initialState)) = Idle"
proof -
  have h1: "\<not> isListening initialState" and h2: "\<not> isBotSpeaking initialState"
    by (simp_all add: initialState_def)
  have h3: "synthesisSupported demoEnv"
    by (simp add: demoEnv_def)
  from opening_spoken_only_when_generated
         [OF h1 h2, of demoEnv demoProfile "js_of ''Q1''" "JsError []"] h1 h2 h3
  show ?thesis by simp
qed

text \<open>
  Claim C5. A transcript that is empty or made of whitespace only is dropped at line 99:
  the handler returns the state as it was and calls nothing, so the conversation and the
  status (Listening, when the session was listening) are unchanged.
\<close>

theorem blank_transcript_is_ignored:
  assumes "list_all is_js_whitespace t"
  shows "handleTranscript b e t r s = (s, []) \<and>
         conversation (fst (handleTranscript b e t r s)) = conversation s \<and>
         status (fst (handleTranscript b e t r s)) = status s"
  using assms by (simp add: handleTranscript_blank trim_empty_iff)

theorem blank_transcript_is_ignored_witness:
  "list_all is_js_whitespace (js_of ''  '') \<and> list_all is_js_whitespace [] \<and>
   status demoListening = Listening \<and>
   handleTranscript False demoEnv (js_of ''  '') (Inr (js_of ''Q2'')) demoListening =
     (demoListening, []) \<and>
   status (fst (handleTranscript False demoEnv [] (Inr (js_of ''Q2'')) demoListening)) =
     Listening"
proof -
  have h1: "list_all is_js_whitespace (js_of ''  '')"
    by (simp add: js_of_def is_js_whitespace_def)
  have h2: "list_all is_js_whitespace []"
    by simp
  have l: "status demoListening = Listening"
    by (rule status_demoListening)
  from blank_transcript_is_ignored [OF h1, of False demoEnv "Inr (js_of ''Q2'')" demoListening]
    blank_transcript_is_ignored [OF h2, of False demoEnv "Inr (js_of ''Q2'')" demoListening]
    h1 h2 l
  show ?thesis by simp
qed

text \<open>
  Claim C6, evaluated on the concrete session: the microphone is pressed while the
  session is Idle, so the handler given to the timer closed over \<open>isListening = false\<close>;
  the canned transcript arrives and the follow-up request is rejected. The user's turn
  stays in the conversation, nothing is appended after it and the error goes to
  \<open>console.error\<close> only; but the test of line 107 reads the captured \<open>false\<close>, so
  \<open>setIsListening(false)\<close> of line 109 is skipped and the session is left Listening
  (the status line reads "Listening..."), not Idle.
\<close>

theorem followup_rejected_stays_listening:
  "status demoOpened = Idle \<and>
   toggleListening demoEnv demoOpened =
     (demoListening, [IsRecognitionSupported, SetTimeout (MockTranscriptCb False) 3000]) \<and>
   status demoListening = Listening \<and>
   conversation (fst (runCallback (MockTranscriptCb False) demoEnv []
                        (Inl (JsError (js_of ''503''))) demoListening)) =
     conversation demoListening @ [\<lparr>speaker = User, turn_text = mockTranscript\<rparr>] \<and>
   snd (runCallback (MockTranscriptCb False) demoEnv []
          (Inl (JsError (js_of ''503''))) demoListening) =
     [GenerateNextQuestion mockTranscript,
      ConsoleError (js_of ''Error generating response:'') (JsError (js_of ''503''))] \<and>
   isListening (fst (runCallback (MockTranscriptCb False) demoEnv []
                       (Inl (JsError (js_of ''503''))) demoListening)) \<and>
   status (fst (runCallback (MockTranscriptCb False) demoEnv []
                  (Inl (JsError (js_of ''503''))) demoListening)) = Listening \<and>
   statusLine (fst (runCallback (MockTranscriptCb False) demoEnv []
                      (Inl (JsError (js_of ''503''))) demoListening)) = js_of ''Listening...''"
proof -
  have "toggleListening demoEnv demoOpened =
     (demoListening, [IsRecognitionSupported, SetTimeout (MockTranscriptCb False) 3000])"
    by (simp add: demoListening_eq) (simp add: demoOpened_eq toggleListening_def demoEnv_def)
  moreover have "isListening demoListening" and "\<not> isBotSpeaking demoListening"
    by (simp_all add: demoListening_eq demoOpened_eq)
  ultimately show ?thesis
    using mockTranscript_not_blank
    by (simp add: status_demoOpened status_demoListening handleTranscript_rejected_status
        handleTranscript_rejected_conversation handleTranscript_rejected_effects
        handleTranscript_isListening handleTranscript_isLoading
        handleTranscript_rejected_isBotSpeaking statusLine_def)
qed

text \<open>
  Claim C7, which fails as stated: the session is ended while Listening, with the timer
  of line 157 still pending; transcription is stopped before the parent's callback, but
  when the timer fires afterwards the handler runs as usual, appends two turns and calls
  the dialogue and speech services.
\<close>

theorem late_transcript_after_end_counterexample:
  "status demoListening = Listening \<and>
   handleEndInterview demoEnv demoListening =
     (demoListening,
      [StopListening, IsSynthesisSupported, SpeechSynthesisCancel, OnEndInterview]) \<and>
   conversation (fst (runCallback (MockTranscriptCb False) demoEnv [] (Inr (js_of ''Q2''))
                        (fst (handleEndInterview demoEnv demoListening)))) =
     conversation demoListening @
       [\<lparr>speaker = User, turn_text = mockTranscript\<rparr>,
        \<lparr>speaker = Bot, turn_text = js_of ''Q2''\<rparr>] \<and>
   conversation (fst (runCallback (MockTranscriptCb False) demoEnv [] (Inr (js_of ''Q2''))
                        (fst (handleEndInterview demoEnv demoListening)))) \<noteq>
     conversation demoListening \<and>
   snd (runCallback (MockTranscriptCb False) demoEnv [] (Inr (js_of ''Q2''))
          (fst (handleEndInterview demoEnv demoListening))) =
     [GenerateNextQuestion mockTranscript, IsSynthesisSupported,
      Speak (js_of ''Q2'') SpeakDoneCb]"
proof -
  have "handleEndInterview demoEnv demoListening =
     (demoListening,
      [StopListening, IsSynthesisSupported, SpeechSynthesisCancel, OnEndInterview])"
    by (simp add: handleEndInterview_def demoEnv_def)
  moreover have "synthesisSupported demoEnv"
    by (simp add: demoEnv_def)
  ultimately show ?thesis
    using mockTranscript_not_blank
    by (simp add: status_demoListening handleTranscript_answered_conversation
        handleTranscript_answered_effects)
qed

text \<open>
  Claim C7 as amended. Ending the session, in any status, calls
  \<open>speechService.stopListening\<close> first, cancels speech output when it is supported and
  calls the parent's callback last; it changes no cell of the state and sets up no
  guard: a callback that fires afterwards does what it would have done before, so the
  conversation stays as it is only for a blank transcript and otherwise receives the
  user's turn, and the interviewer's turn when the dialogue service answers.
\<close>

theorem end_interview_stops_transcription_first:
  "handleEndInterview e s =
     (s, StopListening # IsSynthesisSupported #
         (if synthesisSupported e then [SpeechSynthesisCancel, OnEndInterview]
          else [OnEndInterview])) \<and>
   runCallback cb e t r (fst (handleEndInterview e s)) = runCallback cb e t r s \<and>
   conversation (fst (runCallback (HandleTranscriptCb b) e t r (fst (handleEndInterview e s)))) =
     (if trim t = [] then conversation s
      else conversation s @ \<lparr>speaker = User, turn_text = t\<rparr> #
             (case r of Inr q \<Rightarrow> [\<lparr>speaker = Bot, turn_text = q\<rparr>] | Inl err \<Rightarrow> []))"
proof -
  have "fst (handleEndInterview e s) = s"
    by (simp add: handleEndInterview_def)
  then show ?thesis
    by (cases r)
       (simp_all add: handleEndInterview_def handleTranscript_blank
          handleTranscript_answered_conversation handleTranscript_rejected_conversation)
qed

text \<open>
  Claim C8. Without speech recognition, pressing the microphone in an Idle session sets
  \<open>isListening\<close> and schedules, 3000 ms later, a call of the same \<open>handleTranscript\<close>
  instance that the transcription service would have been given, on the fixed canned
  transcript. Running the timer's callback is running the transcription callback on that
  text: the user's turn is appended, the follow-up is requested and the answer is
  appended and spoken (when speech output is supported).
\<close>

theorem unsupported_recognition_delivers_canned_transcript:
  assumes "\<not> recognitionSupported e" and "status s = Idle"
  shows "toggleListening e s =
           (s\<lparr>isListening := True\<rparr>,
            [IsRecognitionSupported, SetTimeout (MockTranscriptCb False) 3000]) \<and>
         toggleListening (e\<lparr>recognitionSupported := True\<rparr>) s =
           (s\<lparr>isListening := startListeningResult e\<rparr>,
            [IsRecognitionSupported, StartListening (HandleTranscriptCb False)]) \<and>
         runCallback (MockTranscriptCb False) e t r s' =
           runCallback (HandleTranscriptCb False) e mockTranscript r s' \<and>
         trim mockTranscript \<noteq> [] \<and>
         conversation (fst (runCallback (MockTranscriptCb False) e t (Inr q) s')) =
           conversation s' @ [\<lparr>speaker = User, turn_text = mockTranscript\<rparr>,
                              \<lparr>speaker = Bot, turn_text = q\<rparr>] \<and>
         snd (runCallback (MockTranscriptCb False) e t (Inr q) s') =
           [GenerateNextQuestion mockTranscript, IsSynthesisSupported] @
           (if synthesisSupported e then [Speak q SpeakDoneCb] else [])"
proof -
  from assms(2) have idle: "\<not> isBotSpeaking s" "\<not> isLoading s" "\<not> isListening s"
    by (simp_all add: status_def split: if_splits)
  have "toggleListening e s =
           (s\<lparr>isListening := True\<rparr>,
            [IsRecognitionSupported, SetTimeout (MockTranscriptCb False) 3000])"
    using assms(1) idle by (simp add: toggleListening_def)
  moreover have "toggleListening (e\<lparr>recognitionSupported := True\<rparr>) s =
           (s\<lparr>isListening := startListeningResult e\<rparr>,
            [IsRecognitionSupported, StartListening (HandleTranscriptCb False)])"
    using idle by (simp add: toggleListening_def)
  ultimately show ?thesis
    using mockTranscript_not_blank
    by (simp add: handleTranscript_answered_conversation handleTranscript_answered_effects)
qed

theorem unsupported_recognition_delivers_canned_transcript_witness:
  "\<not> recognitionSupported demoEnv \<and> status demoOpened = Idle \<and>
   toggleListening demoEnv demoOpened =
     (demoOpened\<lparr>isListening := True\<rparr>,
      [IsRecognitionSupported, SetTimeout (MockTranscriptCb False) 3000]) \<and>
   runCallback (MockTranscriptCb False) demoEnv [] (Inr (js_of ''Q2'')) demoListening =
     runCallback (HandleTranscriptCb False) demoEnv mockTranscript (Inr (js_of ''Q2''))
       demoListening \<and>
   conversation (fst (runCallback (MockTranscriptCb False) demoEnv [] (Inr (js_of ''Q2''))
                        demoListening)) =
     conversation demoListening @ [\<lparr>speaker = User, turn_text = mockTranscript\<rparr>,
                                   \<lparr>speaker = Bot, turn_text = js_of ''Q2''\<rparr>]"
proof -
  have h1: "\<not> recognitionSupported demoEnv"
    by (simp add: demoEnv_def)
  from unsupported_recognition_delivers_canned_transcript
         [OF h1 status_demoOpened, of "[]" "Inr (js_of ''Q2'')" demoListening "js_of ''Q2''"]
       h1 status_demoOpened
  show ?thesis by simp
qed

text \<open>
  Claim C9, which fails as stated: with three turns, the pill of index 2, the last one,
  exists and sets the active index to 2, outside the half-open range from 0 to
  \<open>length - 1\<close>.
\<close>

theorem last_pill_is_selectable_counterexample:
  "length (conversation demoAnswered) = 3 \<and>
   clickPill 0 demoAnswered = Some (demoAnswered\<lparr>activeMessageIndex := 0\<rparr>) \<and>
   clickPill 2 (demoAnswered\<lparr>activeMessageIndex := 0\<rparr>) =
     Some (demoAnswered\<lparr>activeMessageIndex := 2\<rparr>) \<and>
   \<not> 2 < length (conversation demoAnswered) - 1"
  by (simp add: clickPill_def pillIndices_def conversation_demoAnswered)

text \<open>
  Claim C9 as amended. The pills, the only explicit selection the component offers, exist
  only when the conversation has more than one turn, one for each index from 0 up to and
  including \<open>length - 1\<close>; pressing pill \<open>i\<close> sets the active index to \<open>i\<close> and changes
  nothing else.
\<close>

theorem pill_selection_range:
  "clickPill i s =
     (if 1 < length (conversation s) \<and> i < length (conversation s)
      then Some (s\<lparr>activeMessageIndex := i\<rparr>) else None) \<and>
   pillIndices s =
     (if 1 < length (conversation s) then [0 ..< length (conversation s)] else [])"
  by (simp add: clickPill_def pillIndices_def)

text \<open>
  Claim C10. With an empty conversation the active message is \<open>null\<close> and no panel of
  the current turn is rendered; in every state the lookup yields either \<open>null\<close>, when
  the index is past the end, or the turn at the index.
\<close>

theorem empty_conversation_has_no_active_message:
  assumes "conversation s = []"
  shows "activeMessage s = None \<and> activePanel s = None \<and>
         (case activeMessage s' of
            None \<Rightarrow> length (conversation s') \<le> activeMessageIndex s'
          | Some m \<Rightarrow> activeMessageIndex s' < length (conversation s') \<and>
                      m = conversation s' ! activeMessageIndex s')"
  using assms by (simp add: activeMessage_def activePanel_def)

theorem empty_conversation_has_no_active_message_witness:
  "conversation (fst (initializeInterview_request demoProfile initialState)) = [] \<and>
   activeMessage (fst (initializeInterview_request demoProfile initialState)) = None \<and>
   activePanel (fst (initializeInterview_request demoProfile initialState)) = None"
proof -
  have h: "conversation (fst (initializeInterview_request demoProfile initialState)) = []"
    by (simp add: initializeInterview_request_def initialState_def)
  from empty_conversation_has_no_active_message [OF h, of initialState] h
  show ?thesis by simp
qed

end
